theory Spec2Isabelle
  imports Complex_Main "HOL-Library.AList" "HOL-Library.Log_Nat"
begin

section \<open>JavaScript values\<close>

text \<open>
  A JavaScript Number is an IEEE 754 double. The finite non-zero doubles and \<open>+0\<close> are
  \<open>Fin q\<close> for the rational \<open>q\<close> they denote; \<open>-0\<close>, the two infinities and NaN are
  constructors of their own.
\<close>

datatype jsnum = NaN | PInf | NInf | NegZero | Fin rat

definition pow2 :: "int \<Rightarrow> rat" where
  "pow2 e = (if 0 \<le> e then 2 ^ nat e else 1 / 2 ^ nat (- e))"

text \<open>\<open>ilog2 a\<close> is the binary exponent \<open>\<lfloor>log\<^sub>2 a\<rfloor>\<close> of a positive rational.\<close>

definition ilog2 :: "rat \<Rightarrow> int" where
  "ilog2 a =
     (let (p, q) = quotient_of a;
          e0 = int (floorlog 2 (nat p)) - int (floorlog 2 (nat q))
      in if pow2 e0 \<le> a then e0 else e0 - 1)"

definition roundHalfEven :: "rat \<Rightarrow> int" where
  "roundHalfEven t =
     (let f = \<lfloor>t\<rfloor>; r = t - of_int f
      in if r < 1 / 2 then f else if 1 / 2 < r then f + 1
         else if even f then f else f + 1)"

text \<open>
  Rounding of an exact result to the nearest double, ties to even: 53 significant bits,
  subnormals below \<open>2\<^sup>-\<^sup>1\<^sup>0\<^sup>2\<^sup>2\<close>, overflow to an infinity from \<open>2\<^sup>1\<^sup>0\<^sup>2\<^sup>4\<close> on, and a
  signed zero on underflow.
\<close>

definition roundDouble :: "rat \<Rightarrow> jsnum" where
  "roundDouble x =
     (if x = 0 then Fin 0
      else let a = \<bar>x\<bar>;
               e = max (ilog2 a) (- 1022);
               u = pow2 (e - 52);
               y = of_int (roundHalfEven (a / u)) * u
           in if pow2 1024 \<le> y then (if x < 0 then NInf else PInf)
              else if y = 0 then (if x < 0 then NegZero else Fin 0)
              else Fin (if x < 0 then - y else y))"

definition isNaN :: "jsnum \<Rightarrow> bool" where
  "isNaN a = (a = NaN)"

definition isInf :: "jsnum \<Rightarrow> bool" where
  "isInf a = (a = PInf \<or> a = NInf)"

definition isZero :: "jsnum \<Rightarrow> bool" where
  "isZero a = (a = Fin 0 \<or> a = NegZero)"

fun negative :: "jsnum \<Rightarrow> bool" where
  "negative NInf = True"
| "negative NegZero = True"
| "negative (Fin x) = (x < 0)"
| "negative _ = False"

fun magnitude :: "jsnum \<Rightarrow> rat" where
  "magnitude (Fin x) = x"
| "magnitude _ = 0"

definition signedInf :: "bool \<Rightarrow> jsnum" where
  "signedInf neg = (if neg then NInf else PInf)"

definition signedZero :: "bool \<Rightarrow> jsnum" where
  "signedZero neg = (if neg then NegZero else Fin 0)"

text \<open>The operators \<^verbatim>\<open>*\<close> and \<^verbatim>\<open>/\<close> on two Numbers (IEEE 754 multiplication and division).\<close>

definition js_mul :: "jsnum \<Rightarrow> jsnum \<Rightarrow> jsnum" where
  "js_mul a b =
     (let neg = (negative a \<noteq> negative b)
      in if isNaN a \<or> isNaN b then NaN
         else if (isInf a \<and> isZero b) \<or> (isZero a \<and> isInf b) then NaN
         else if isInf a \<or> isInf b then signedInf neg
         else if isZero a \<or> isZero b then signedZero neg
         else roundDouble (magnitude a * magnitude b))"

definition js_div :: "jsnum \<Rightarrow> jsnum \<Rightarrow> jsnum" where
  "js_div a b =
     (let neg = (negative a \<noteq> negative b)
      in if isNaN a \<or> isNaN b then NaN
         else if (isInf a \<and> isInf b) \<or> (isZero a \<and> isZero b) then NaN
         else if isInf a \<or> isZero b then signedInf neg
         else if isInf b \<or> isZero a then signedZero neg
         else roundDouble (magnitude a / magnitude b))"

text \<open>The comparison \<^verbatim>\<open>a <= 0\<close>: false for NaN, true for both zeros.\<close>

fun js_le_zero :: "jsnum \<Rightarrow> bool" where
  "js_le_zero NaN = False"
| "js_le_zero PInf = False"
| "js_le_zero NInf = True"
| "js_le_zero NegZero = True"
| "js_le_zero (Fin x) = (x \<le> 0)"

fun js_neg :: "jsnum \<Rightarrow> jsnum" where
  "js_neg NaN = NaN"
| "js_neg PInf = NInf"
| "js_neg NInf = PInf"
| "js_neg NegZero = Fin 0"
| "js_neg (Fin x) = (if x = 0 then NegZero else Fin (- x))"


section \<open>Number parsing\<close>

text \<open>
  Strings are texts of characters with codes below 256; the white space of ECMAScript in
  that range is 9 to 13, 32 and 160 (no-break space). \<open>parseFloat\<close> follows ECMA-262:
  leading white space is
  dropped, the longest prefix that is a \<open>StrDecimalLiteral\<close> is read, and the result is NaN
  when there is no such prefix. \<open>stringToNumber\<close> is \<open>ToNumber\<close> on a String: the whole
  trimmed text has to be a numeric literal, and the empty text is \<open>+0\<close>.
\<close>

definition isDigit :: "char \<Rightarrow> bool" where
  "isDigit c = (48 \<le> (of_char c :: nat) \<and> (of_char c :: nat) \<le> 57)"

definition isWhiteSpace :: "char \<Rightarrow> bool" where
  "isWhiteSpace c = ((of_char c :: nat) \<in> {9, 10, 11, 12, 13, 32, 160})"

definition digitsVal :: "string \<Rightarrow> nat" where
  "digitsVal ds = foldl (\<lambda>a c. 10 * a + ((of_char c :: nat) - 48)) 0 ds"

definition pow10 :: "int \<Rightarrow> rat" where
  "pow10 e = (if 0 \<le> e then 10 ^ nat e else 1 / 10 ^ nat (- e))"

definition decimalValue :: "string \<Rightarrow> string \<Rightarrow> int \<Rightarrow> jsnum" where
  "decimalValue ds fs e =
     roundDouble (of_nat (digitsVal (ds @ fs)) * pow10 (e - int (length fs)))"

text \<open>An optional \<open>ExponentPart\<close>: its value and the rest, or 0 and the text untouched.\<close>

definition parseExponent :: "string \<Rightarrow> int \<times> string" where
  "parseExponent s =
     (case s of
        [] \<Rightarrow> (0, s)
      | c # t \<Rightarrow>
          if c = CHR ''e'' \<or> c = CHR ''E'' then
            (let (neg, u) = (case t of
                               [] \<Rightarrow> (False, t)
                             | d # v \<Rightarrow> if d = CHR ''-'' then (True, v)
                                        else if d = CHR ''+'' then (False, v)
                                        else (False, t));
                 es = takeWhile isDigit u
             in if es = [] then (0, s)
                else ((if neg then - int (digitsVal es) else int (digitsVal es)),
                      dropWhile isDigit u))
          else (0, s))"

definition parseUnsignedDecimal :: "string \<Rightarrow> (jsnum \<times> string) option" where
  "parseUnsignedDecimal s =
     (if take 8 s = ''Infinity'' then Some (PInf, drop 8 s)
      else let ds = takeWhile isDigit s; r1 = dropWhile isDigit s
           in case r1 of
                [] \<Rightarrow> if ds = [] then None else Some (decimalValue ds [] 0, [])
              | c # t \<Rightarrow>
                  if c = CHR ''.'' then
                    (let fs = takeWhile isDigit t; r2 = dropWhile isDigit t
                     in if ds = [] \<and> fs = [] then None
                        else let (e, r3) = parseExponent r2
                             in Some (decimalValue ds fs e, r3))
                  else if ds = [] then None
                  else let (e, r3) = parseExponent r1
                       in Some (decimalValue ds [] e, r3))"

definition parseSignedDecimal :: "string \<Rightarrow> (jsnum \<times> string) option" where
  "parseSignedDecimal s =
     (case s of
        [] \<Rightarrow> None
      | c # t \<Rightarrow>
          if c = CHR ''-'' then map_option (\<lambda>(v, r). (js_neg v, r)) (parseUnsignedDecimal t)
          else if c = CHR ''+'' then parseUnsignedDecimal t
          else parseUnsignedDecimal s)"

definition parseFloat :: "string \<Rightarrow> jsnum" where
  "parseFloat s =
     (case parseSignedDecimal (dropWhile isWhiteSpace s) of
        None \<Rightarrow> NaN
      | Some (v, _) \<Rightarrow> v)"

definition radixDigit :: "char \<Rightarrow> nat option" where
  "radixDigit c =
     (let n = (of_char c :: nat)
      in if 48 \<le> n \<and> n \<le> 57 then Some (n - 48)
         else if 97 \<le> n \<and> n \<le> 102 then Some (n - 87)
         else if 65 \<le> n \<and> n \<le> 70 then Some (n - 55)
         else None)"

text \<open>A \<open>NonDecimalIntegerLiteral\<close> after its prefix: digits below the radix, at least one.\<close>

definition radixValue :: "nat \<Rightarrow> string \<Rightarrow> jsnum" where
  "radixValue b ds =
     (if ds \<noteq> [] \<and> list_all (\<lambda>c. case radixDigit c of None \<Rightarrow> False | Some d \<Rightarrow> d < b) ds
      then roundDouble (of_nat (foldl (\<lambda>a c. b * a + (case radixDigit c of None \<Rightarrow> 0 | Some d \<Rightarrow> d)) 0 ds))
      else NaN)"

definition trim :: "string \<Rightarrow> string" where
  "trim s = rev (dropWhile isWhiteSpace (rev (dropWhile isWhiteSpace s)))"

definition stringToNumber :: "string \<Rightarrow> jsnum" where
  "stringToNumber s =
     (let t = trim s
      in if t = [] then Fin 0
         else if take 2 t \<in> {''0x'', ''0X''} then radixValue 16 (drop 2 t)
         else if take 2 t \<in> {''0o'', ''0O''} then radixValue 8 (drop 2 t)
         else if take 2 t \<in> {''0b'', ''0B''} then radixValue 2 (drop 2 t)
         else case parseSignedDecimal t of
                Some (v, []) \<Rightarrow> v
              | _ \<Rightarrow> NaN)"

section \<open>Values, property reads and coercions\<close>

text \<open>
  The values the scripts handle: what \<^verbatim>\<open>JSON.parse\<close> builds, and \<^verbatim>\<open>undefined\<close> for a
  property that is not there. An object is the list of its own properties, each name
  once.
\<close>

datatype jsval =
    JUndefined
  | JNull
  | JBool bool
  | JNum jsnum
  | JStr string
  | JArr "jsval list"
  | JObj "(string \<times> jsval) list"

datatype runtimeError =
    NetworkFailure   \<comment> \<open>\<^verbatim>\<open>fetch\<close> rejects: no response\<close>
  | JsonSyntax       \<comment> \<open>\<^verbatim>\<open>response.json()\<close> rejects: the body is not JSON\<close>
  | NullProperty     \<comment> \<open>TypeError: a property of \<^verbatim>\<open>null\<close> or \<^verbatim>\<open>undefined\<close> is read\<close>
  | NoPrimitive      \<comment> \<open>TypeError: an object cannot be converted to a primitive value\<close>
  | NotAFunction     \<comment> \<open>TypeError: a method is called that the value does not have\<close>

fun truthy :: "jsval \<Rightarrow> bool" where
  "truthy JUndefined = False"
| "truthy JNull = False"
| "truthy (JBool b) = b"
| "truthy (JNum n) = (\<not> isNaN n \<and> \<not> isZero n)"
| "truthy (JStr s) = (s \<noteq> [])"
| "truthy (JArr _) = True"
| "truthy (JObj _) = True"

text \<open>\<^verbatim>\<open>typeof v === "number"\<close>\<close>

fun isNumber :: "jsval \<Rightarrow> bool" where
  "isNumber (JNum _) = True"
| "isNumber _ = False"

text \<open>
  \<^verbatim>\<open>v.k\<close> for a property name \<open>k\<close> that no built-in prototype defines (\<^verbatim>\<open>usd_price\<close>,
  \<^verbatim>\<open>data\<close> and \<^verbatim>\<open>price\<close> are such names): the own property of an object, \<^verbatim>\<open>undefined\<close> on
  any other value, and a TypeError on \<^verbatim>\<open>null\<close> and \<^verbatim>\<open>undefined\<close>.
\<close>

fun getProp :: "jsval \<Rightarrow> string \<Rightarrow> runtimeError + jsval" where
  "getProp JUndefined k = Inl NullProperty"
| "getProp JNull k = Inl NullProperty"
| "getProp (JObj ps) k = Inr (case map_of ps k of None \<Rightarrow> JUndefined | Some v \<Rightarrow> v)"
| "getProp _ k = Inr JUndefined"

definition andThen :: "'e + 'a \<Rightarrow> ('a \<Rightarrow> 'e + 'b) \<Rightarrow> 'e + 'b" where
  "andThen r f = (case r of Inl e \<Rightarrow> Inl e | Inr v \<Rightarrow> f v)"

text \<open>
  \<open>ToNumber\<close> of a value, as the operators \<^verbatim>\<open>*\<close> and \<^verbatim>\<open>/\<close> apply it to an operand. A parsed
  object has no callable \<^verbatim>\<open>toString\<close> of its own: when it has an own property of that name
  the conversion throws, otherwise its text is \<^verbatim>\<open>[object Object]\<close>, which is no number. An
  array is converted through the text that \<^verbatim>\<open>join\<close> builds: empty for no element, the
  element's text for one element, and a text with a comma (no number) for more.
  \<open>throwsOnToString v\<close> says that the conversion of \<open>v\<close> to a text throws, which is the
  case for these objects and for the arrays that hold one; a template literal that
  substitutes such a value throws as well.
\<close>

fun throwsOnToString :: "jsval \<Rightarrow> bool" where
  "throwsOnToString (JObj ps) = (''toString'' \<in> set (map fst ps))"
| "throwsOnToString (JArr xs) = list_ex throwsOnToString xs"
| "throwsOnToString _ = False"

fun elementNumber :: "jsval \<Rightarrow> jsnum" where
  "elementNumber JUndefined = Fin 0"
| "elementNumber JNull = Fin 0"
| "elementNumber (JBool b) = NaN"
| "elementNumber (JNum n) = (if n = NegZero then Fin 0 else n)"
| "elementNumber (JStr s) = stringToNumber s"
| "elementNumber (JObj ps) = NaN"
| "elementNumber (JArr []) = Fin 0"
| "elementNumber (JArr [x]) = elementNumber x"
| "elementNumber (JArr (x # y # zs)) = NaN"

fun toNumber :: "jsval \<Rightarrow> runtimeError + jsnum" where
  "toNumber JUndefined = Inr NaN"
| "toNumber JNull = Inr (Fin 0)"
| "toNumber (JBool b) = Inr (Fin (if b then 1 else 0))"
| "toNumber (JNum n) = Inr n"
| "toNumber (JStr s) = Inr (stringToNumber s)"
| "toNumber (JObj ps) = (if throwsOnToString (JObj ps) then Inl NoPrimitive else Inr NaN)"
| "toNumber (JArr xs) =
     (if throwsOnToString (JArr xs) then Inl NoPrimitive else Inr (elementNumber (JArr xs)))"

text \<open>
  Texts the scripts build. The formatting built-ins are kept as symbols: a text is the list
  of its pieces, in order.
\<close>

datatype piece =
    Lit string              \<comment> \<open>literal characters\<close>
  | Fixed jsnum nat         \<comment> \<open>\<^verbatim>\<open>n.toFixed(d)\<close>\<close>
  | Upper string            \<comment> \<open>\<^verbatim>\<open>s.toUpperCase()\<close>\<close>
  | Str jsval               \<comment> \<open>a value substituted into a template literal\<close>
  | Inherited string        \<comment> \<open>a member of \<^verbatim>\<open>Object.prototype\<close>, as a text\<close>
  | EngineMessage runtimeError  \<comment> \<open>the message of an error the engine raises\<close>

type_synonym jstext = "piece list"

datatype jserror = Error jstext | Runtime runtimeError

fun errMessage :: "jserror \<Rightarrow> jstext" where
  "errMessage (Error m) = m"
| "errMessage (Runtime r) = [EngineMessage r]"

text \<open>
  What the network gives back for one \<^verbatim>\<open>fetch\<close>: no response at all, or a response with
  its status and its body as \<^verbatim>\<open>response.json()\<close> reads it (\<open>None\<close>: the body is not JSON).
\<close>

datatype fetchOutcome = NetworkError | Response nat "jsval option"

definition ok :: "nat \<Rightarrow> bool" where
  "ok status = (200 \<le> status \<and> status \<le> 299)"


section \<open>The single-currency calculator (assets/transfer.js)\<close>

text \<open>
  \<open>extractUsdPrice\<close>, line by line: the result is \<^verbatim>\<open>null\<close> (\<open>JNull\<close>) when no shape matches.
  Each property read may throw on \<^verbatim>\<open>null\<close> or \<^verbatim>\<open>undefined\<close>, so the result is a sum.
\<close>

definition extractUsdPrice :: "jsval \<Rightarrow> runtimeError + jsval" where
  "extractUsdPrice data =
     (if \<not> truthy data then Inr JNull
      else andThen (getProp data ''usd_price'') (\<lambda>p.
        if isNumber p then Inr p
        else andThen (getProp data ''data'') (\<lambda>d.
          if truthy d then
            andThen (getProp d ''usd_price'') (\<lambda>dp.
              if isNumber dp then Inr dp
              else andThen (getProp d ''price'') (\<lambda>pr.
                andThen (if truthy pr then getProp pr ''usd_price'' else Inr JUndefined) (\<lambda>pp.
                  if truthy pr \<and> isNumber pp then Inr pp
                  else if isNumber d then Inr d
                  else Inr JNull)))
          else Inr JNull)))"

definition tokenPriceUrl :: "string \<Rightarrow> string" where
  "tokenPriceUrl coinId = ''https://price-api.crypto.com/price/v1/token-price/'' @ coinId"

text \<open>
  \<open>handleSubmit\<close>: from the selected coin, the text of the amount field and what the
  network gives back, the text left in the result element and the request sent.
\<close>

definition handleSubmit :: "string \<Rightarrow> string \<Rightarrow> fetchOutcome \<Rightarrow> jstext \<times> string" where
  "handleSubmit coinId amountValue outcome =
     (let amount = parseFloat (if amountValue = [] then ''0'' else amountValue);
          shown =
            (case outcome of
               NetworkError \<Rightarrow> Inl (Runtime NetworkFailure)
             | Response status body \<Rightarrow>
                 if \<not> ok status then Inl (Error [Lit ''HTTP '', Str (JNum (Fin (of_nat status)))])
                 else (case body of
                         None \<Rightarrow> Inl (Runtime JsonSyntax)
                       | Some json \<Rightarrow>
                           (case extractUsdPrice json of
                              Inl e \<Rightarrow> Inl (Runtime e)
                            | Inr JNull \<Rightarrow>
                                Inl (Error [Lit ''Unable to read usd_price from response''])
                            | Inr (JNum usdPrice) \<Rightarrow>
                                (let total = js_mul amount usdPrice
                                 in Inr [Lit ''Price: $'', Fixed usdPrice 6, Lit '' | Amount: '',
                                         Str (JNum amount), Lit '' => USD '', Fixed total 6])
                            | Inr other \<Rightarrow>
                                (case toNumber other of
                                   Inl e \<Rightarrow> Inl (Runtime e)
                                 | Inr _ \<Rightarrow> Inl (Runtime NotAFunction)))));
          content = (case shown of
                       Inl err \<Rightarrow> Lit ''Error: '' # errMessage err
                     | Inr message \<Rightarrow> message)
      in (content, tokenPriceUrl coinId))"

section \<open>The pair converter (class CryptoConverter)\<close>

subsection \<open>Price cache\<close>

text \<open>
  \<open>priceCache\<close> is a JavaScript \<^verbatim>\<open>Map\<close>: a list of entries in insertion order, with at most
  one entry per key. \<^verbatim>\<open>Date.now()\<close> is an integer number of milliseconds; each function
  reads it once, and takes it as its first argument \<open>now\<close>.
\<close>

record cacheEntry =
  price :: jsval
  timestamp :: int

type_synonym cache = "(string \<times> cacheEntry) list"

definition cacheExpiration :: int where
  "cacheExpiration = 60 * 1000"

definition getCachedPrice :: "int \<Rightarrow> string \<Rightarrow> cache \<Rightarrow> jsval \<times> cache" where
  "getCachedPrice now coinId cache =
     (case map_of cache coinId of
        None \<Rightarrow> (JNull, cache)
      | Some cached \<Rightarrow>
          if now - timestamp cached > cacheExpiration
          then (JNull, AList.delete coinId cache)
          else (price cached, cache))"

definition setCachedPrice :: "int \<Rightarrow> string \<Rightarrow> jsval \<Rightarrow> cache \<Rightarrow> cache" where
  "setCachedPrice now coinId p cache =
     AList.update coinId \<lparr>price = p, timestamp = now\<rparr> cache"

definition clearExpiredCache :: "int \<Rightarrow> cache \<Rightarrow> cache" where
  "clearExpiredCache now cache =
     filter (\<lambda>(coinId, cached). \<not> now - timestamp cached > cacheExpiration) cache"

text \<open>
  \<open>getCacheStatus\<close> returns the status text together with the cache it leaves. The age
  in seconds is \<^verbatim>\<open>Math.floor((now - cached.timestamp) / 1000)\<close>: on integers of this size the
  floored quotient is integer division rounding down.
\<close>

definition remainingSeconds :: "int \<Rightarrow> cacheEntry \<Rightarrow> int" where
  "remainingSeconds now cached = 60 - (now - timestamp cached) div 1000"

definition cacheStatusText :: "int \<Rightarrow> jstext" where
  "cacheStatusText seconds =
     [Lit '' <span class=\"text-xs text-blue-500\">(cached '',
      Str (JNum (Fin (of_int seconds))),
      Lit ''s)</span>'']"

definition getCacheStatus :: "int \<Rightarrow> string \<Rightarrow> cache \<Rightarrow> jstext \<times> cache" where
  "getCacheStatus now coinId cache =
     (case map_of cache coinId of
        None \<Rightarrow> ([], cache)
      | Some cached \<Rightarrow>
          if remainingSeconds now cached > 0
          then (cacheStatusText (remainingSeconds now cached), cache)
          else ([], cache))"


subsection \<open>Fetching a price\<close>

datatype effect =
    ConsoleLog jstext
  | ConsoleError jstext jserror
  | FetchRequest string

text \<open>
  \<open>fetchPrice\<close> is asynchronous. Its first part runs when it is called, up to the
  \<^verbatim>\<open>fetch\<close>: the result is \<open>Some\<close> when the promise is settled at once, and \<open>None\<close> when a
  request has been sent. On a cache hit the price is first put into the text of the log
  entry, before the \<^verbatim>\<open>try\<close>: for a cached value that cannot be converted to a text this
  throws, so the promise is rejected and nothing is logged; otherwise the entry is logged
  and the promise is fulfilled with the price. Its second part runs when the network
  has answered: \<open>readUsdPrice\<close> is what the \<^verbatim>\<open>try\<close> block gets from the answer, an error
  thrown or the value of \<^verbatim>\<open>data.usd_price\<close>. Both parts return the cache they leave and
  what they log and request.
\<close>

definition fetchPriceStart ::
  "int \<Rightarrow> string \<Rightarrow> cache \<Rightarrow> (jserror + jsval) option \<times> cache \<times> effect list" where
  "fetchPriceStart now coinId cache =
     (let (cachedPrice, cache') = getCachedPrice now coinId cache
      in if cachedPrice \<noteq> JNull
         then if throwsOnToString cachedPrice
              then (Some (Inl (Runtime NoPrimitive)), cache', [])
              else (Some (Inr cachedPrice), cache',
                    [ConsoleLog [Lit ''Using cached price for '', Lit coinId, Lit '': $'',
                                 Str cachedPrice]])
         else (None, cache',
               [ConsoleLog [Lit ''Fetching fresh price for '', Lit coinId, Lit ''...''],
                FetchRequest (tokenPriceUrl coinId)]))"

definition readUsdPrice :: "fetchOutcome \<Rightarrow> jserror + jsval" where
  "readUsdPrice outcome =
     (case outcome of
        NetworkError \<Rightarrow> Inl (Runtime NetworkFailure)
      | Response status body \<Rightarrow>
          if \<not> ok status
          then Inl (Error [Lit ''HTTP error! status: '', Str (JNum (Fin (of_nat status)))])
          else (case body of
                  None \<Rightarrow> Inl (Runtime JsonSyntax)
                | Some data \<Rightarrow>
                    (case getProp data ''usd_price'' of
                       Inl e \<Rightarrow> Inl (Runtime e)
                     | Inr p \<Rightarrow> Inr p)))"

definition fetchPriceSettle ::
  "int \<Rightarrow> string \<Rightarrow> fetchOutcome \<Rightarrow> cache \<Rightarrow> (jserror + jsval) \<times> cache \<times> effect list" where
  "fetchPriceSettle now coinId outcome cache =
     (case readUsdPrice outcome of
        Inl err \<Rightarrow>
          (Inl err, cache,
           [ConsoleError [Lit ''Error fetching price for '', Lit coinId, Lit '':''] err])
      | Inr p \<Rightarrow> (Inr p, setCachedPrice now coinId p cache, []))"

text \<open>One call of \<open>fetchPrice\<close> run to its end: \<open>now\<close> at the call, \<open>later\<close> at the answer.\<close>

definition fetchPrice ::
  "int \<Rightarrow> int \<Rightarrow> string \<Rightarrow> fetchOutcome \<Rightarrow> cache \<Rightarrow> (jserror + jsval) \<times> cache \<times> effect list" where
  "fetchPrice now later coinId outcome cache =
     (case fetchPriceStart now coinId cache of
        (Some r, cache', fx) \<Rightarrow> (r, cache', fx)
      | (None, cache', fx) \<Rightarrow>
          (let (r, cache'', fx') = fetchPriceSettle later coinId outcome cache'
           in (r, cache'', fx @ fx')))"

subsection \<open>The page and its controller\<close>

record converter =
  isConverting :: bool
  priceCache :: cache
  fromCryptoValue :: string
  toCryptoValue :: string
  amountInputValue :: string
  convertBtnDisabled :: bool
  convertTextHidden :: bool
  convertLoadingHidden :: bool
  resultText :: jstext
  resultHidden :: bool
  errorText :: jstext
  errorHidden :: bool

definition cryptoNames :: "(string \<times> string) list" where
  "cryptoNames =
     [(''pepepow'', ''PEPEW''), (''ravencoin'', ''RVN''), (''bitcoin'', ''BTC''),
      (''ethereum'', ''ETH''), (''dogecoin'', ''DOGE''), (''litecoin'', ''LTC''),
      (''cardano'', ''ADA''), (''polkadot'', ''DOT''), (''digibyte'', ''DGB'')]"

text \<open>
  \<^verbatim>\<open>cryptoNames\<close> is an object literal, so a lookup also finds the members it inherits
  from \<^verbatim>\<open>Object.prototype\<close>; all of them are truthy.
\<close>

definition objectPrototypeMembers :: "string list" where
  "objectPrototypeMembers =
     [''constructor'', ''hasOwnProperty'', ''isPrototypeOf'', ''propertyIsEnumerable'',
      ''toLocaleString'', ''toString'', ''valueOf'', ''__proto__'', ''__defineGetter__'',
      ''__defineSetter__'', ''__lookupGetter__'', ''__lookupSetter__'']"

definition getCryptoDisplayName :: "string \<Rightarrow> jstext" where
  "getCryptoDisplayName coinId =
     (case map_of cryptoNames coinId of
        Some name \<Rightarrow> [Lit name]
      | None \<Rightarrow>
          if coinId \<in> set objectPrototypeMembers then [Inherited coinId]
          else [Upper coinId])"

definition setLoadingState :: "bool \<Rightarrow> converter \<Rightarrow> converter" where
  "setLoadingState isLoading s =
     s\<lparr>isConverting := isLoading,
       convertBtnDisabled := isLoading,
       convertTextHidden := isLoading,
       convertLoadingHidden := \<not> isLoading\<rparr>"

definition clearMessages :: "converter \<Rightarrow> converter" where
  "clearMessages s =
     s\<lparr>resultText := [], errorText := [], resultHidden := True, errorHidden := True\<rparr>"

definition showError :: "jstext \<Rightarrow> converter \<Rightarrow> converter" where
  "showError message s = s\<lparr>errorText := message, errorHidden := False\<rparr>"

definition showResult :: "jstext \<Rightarrow> converter \<Rightarrow> converter" where
  "showResult message s = s\<lparr>resultText := message, resultHidden := False\<rparr>"

datatype validation = Invalid jstext | Valid jsnum string string

definition sameCurrencyError :: jstext where
  "sameCurrencyError = [Lit ''Please select different cryptocurrencies for conversion.'']"

definition invalidAmountError :: "string \<Rightarrow> jstext" where
  "invalidAmountError fromCrypto =
     [Lit ''Please enter a valid ''] @ getCryptoDisplayName fromCrypto @ [Lit '' amount.'']"

definition validateInputs :: "converter \<Rightarrow> validation" where
  "validateInputs s =
     (let amount = parseFloat (amountInputValue s);
          fromCrypto = fromCryptoValue s;
          toCrypto = toCryptoValue s
      in if fromCrypto = toCrypto then Invalid sameCurrencyError
         else if isNaN amount \<or> js_le_zero amount then Invalid (invalidAmountError fromCrypto)
         else Valid amount fromCrypto toCrypto)"


subsection \<open>Conversion\<close>

text \<open>
  What one run of \<open>convert\<close> takes from outside: the clock at the two cache reads, what
  the network answers to each request, the clock when each answer is stored, and which
  answer arrives first when two requests are under way. Every request is answered.
\<close>

record environment =
  clockFrom :: int
  clockTo :: int
  netFrom :: fetchOutcome
  netTo :: fetchOutcome
  storeFrom :: int
  storeTo :: int
  fromSettlesFirst :: bool

text \<open>
  \<^verbatim>\<open>Promise.all([this.fetchPrice(fromCrypto), this.fetchPrice(toCrypto)])\<close>: both calls
  are made, in this order, before the two promises are awaited together. The result is the
  pair of prices when both are fulfilled, and the first rejection otherwise, at which
  moment the other request is no longer waited for. A promise rejected at the call comes
  before every answer of the network, and of two such promises the first one comes first.
  The cache and effects returned are those at the moment the combined promise settles.
\<close>

definition fetchBoth ::
  "environment \<Rightarrow> string \<Rightarrow> string \<Rightarrow> cache \<Rightarrow>
     (jserror + jsval \<times> jsval) \<times> cache \<times> effect list" where
  "fetchBoth env fromCrypto toCrypto cache =
     (let (startedFrom, c1, fx1) = fetchPriceStart (clockFrom env) fromCrypto cache;
          (startedTo, c2, fx2) = fetchPriceStart (clockTo env) toCrypto c1;
          settleFrom = fetchPriceSettle (storeFrom env) fromCrypto (netFrom env);
          settleTo = fetchPriceSettle (storeTo env) toCrypto (netTo env)
      in case (startedFrom, startedTo) of
           (Some (Inl e), _) \<Rightarrow> (Inl e, c2, fx1 @ fx2)
         | (Some (Inr a), Some (Inl e)) \<Rightarrow> (Inl e, c2, fx1 @ fx2)
         | (Some (Inr a), Some (Inr b)) \<Rightarrow> (Inr (a, b), c2, fx1 @ fx2)
         | (Some (Inr a), None) \<Rightarrow>
             (let (r, c3, fx3) = settleTo c2
              in ((case r of Inl e \<Rightarrow> Inl e | Inr b \<Rightarrow> Inr (a, b)), c3, fx1 @ fx2 @ fx3))
         | (None, Some (Inl e)) \<Rightarrow> (Inl e, c2, fx1 @ fx2)
         | (None, Some (Inr b)) \<Rightarrow>
             (let (r, c3, fx3) = settleFrom c2
              in ((case r of Inl e \<Rightarrow> Inl e | Inr a \<Rightarrow> Inr (a, b)), c3, fx1 @ fx2 @ fx3))
         | (None, None) \<Rightarrow>
             if fromSettlesFirst env then
               (let (r, c3, fx3) = settleFrom c2
                in case r of
                     Inl e \<Rightarrow> (Inl e, c3, fx1 @ fx2 @ fx3)
                   | Inr a \<Rightarrow>
                       (let (r', c4, fx4) = settleTo c3
                        in ((case r' of Inl e \<Rightarrow> Inl e | Inr b \<Rightarrow> Inr (a, b)), c4,
                            fx1 @ fx2 @ fx3 @ fx4)))
             else
               (let (r, c3, fx3) = settleTo c2
                in case r of
                     Inl e \<Rightarrow> (Inl e, c3, fx1 @ fx2 @ fx3)
                   | Inr b \<Rightarrow>
                       (let (r', c4, fx4) = settleFrom c3
                        in ((case r' of Inl e \<Rightarrow> Inl e | Inr a \<Rightarrow> Inr (a, b)), c4,
                            fx1 @ fx2 @ fx3 @ fx4))))"

definition resultMessage :: "jsnum \<Rightarrow> string \<Rightarrow> jsnum \<Rightarrow> string \<Rightarrow> jsnum \<Rightarrow> jstext" where
  "resultMessage amount fromCrypto convertedAmount toCrypto usdAmount =
     [Fixed amount 4, Lit '' ''] @ getCryptoDisplayName fromCrypto @
     [Lit '' = '', Fixed convertedAmount 8, Lit '' ''] @ getCryptoDisplayName toCrypto @
     [Lit '' (via USD: $'', Fixed usdAmount 6, Lit '')'']"

definition fetchErrorMessage :: jstext where
  "fetchErrorMessage = [Lit ''Error fetching prices. Please try again later.'']"

text \<open>
  The body of the \<^verbatim>\<open>try\<close> after the prices have arrived: FROM to USD to TO. A price that
  is not a Number is converted by the operator, which may throw.
\<close>

definition computeResult :: "jsnum \<Rightarrow> string \<Rightarrow> string \<Rightarrow> jsval \<Rightarrow> jsval \<Rightarrow> jserror + jstext" where
  "computeResult amount fromCrypto toCrypto fromPrice toPrice =
     (case toNumber fromPrice of
        Inl e \<Rightarrow> Inl (Runtime e)
      | Inr fp \<Rightarrow>
          (let usdAmount = js_mul amount fp
           in case toNumber toPrice of
                Inl e \<Rightarrow> Inl (Runtime e)
              | Inr tp \<Rightarrow>
                  (let convertedAmount = js_div usdAmount tp
                   in Inr (resultMessage amount fromCrypto convertedAmount toCrypto usdAmount))))"

text \<open>
  \<open>convert\<close>, one run from the call to the moment its promise settles: the controller
  it leaves, and what it logged and requested. Handlers of other events, which the page may
  run while the requests are under way, are not part of the run.
\<close>

definition convert :: "environment \<Rightarrow> converter \<Rightarrow> converter \<times> effect list" where
  "convert env s =
     (if isConverting s then (s, [])
      else
        let s1 = setLoadingState True (clearMessages s)
        in case validateInputs s1 of
             Invalid message \<Rightarrow> (setLoadingState False (showError message s1), [])
           | Valid amount fromCrypto toCrypto \<Rightarrow>
               (let (fetched, cache', fx) = fetchBoth env fromCrypto toCrypto (priceCache s1);
                    s2 = s1\<lparr>priceCache := cache'\<rparr>;
                    outcome = (case fetched of
                              Inl e \<Rightarrow> Inl e
                            | Inr (fromPrice, toPrice) \<Rightarrow>
                                computeResult amount fromCrypto toCrypto fromPrice toPrice)
                in case outcome of
                     Inl e \<Rightarrow>
                       (setLoadingState False (showError fetchErrorMessage s2),
                        fx @ [ConsoleError [Lit ''Conversion error:''] e])
                   | Inr message \<Rightarrow> (setLoadingState False (showResult message s2), fx)))"


section \<open>Notions used in the properties\<close>

text \<open>
  The specification asks for an amount that is a finite number greater than zero;
  \<open>positiveNumber\<close> is a number greater than zero, finite or not.
\<close>

fun finitePositive :: "jsnum \<Rightarrow> bool" where
  "finitePositive (Fin x) = (0 < x)"
| "finitePositive _ = False"

fun positiveNumber :: "jsnum \<Rightarrow> bool" where
  "positiveNumber (Fin x) = (0 < x)"
| "positiveNumber PInf = True"
| "positiveNumber _ = False"

text \<open>
  The specification's \<open>remainingTtl\<close>: \<open>60 - floor((now - fetchedAt)/1000)\<close> clamped to
  non-negative, absent if there is no live entry; an entry is live while
  \<open>now - fetchedAt \<le> 60000\<close>.
\<close>

definition remainingTtl :: "int \<Rightarrow> string \<Rightarrow> cache \<Rightarrow> int option" where
  "remainingTtl now coinId cache =
     (case map_of cache coinId of
        None \<Rightarrow> None
      | Some cached \<Rightarrow>
          if now - timestamp cached \<le> 60000
          then Some (max 0 (60 - (now - timestamp cached) div 1000))
          else None)"

text \<open>A failed conversion: the generic message is shown, no result is, and \<open>e\<close> is logged last.\<close>

definition failedWith :: "jserror \<Rightarrow> converter \<times> effect list \<Rightarrow> bool" where
  "failedWith e run =
     (errorText (fst run) = fetchErrorMessage \<and> \<not> errorHidden (fst run) \<and>
      resultText (fst run) = [] \<and> resultHidden (fst run) \<and>
      snd run \<noteq> [] \<and> last (snd run) = ConsoleError [Lit ''Conversion error:''] e)"

text \<open>
  The outcome of two calls awaited together, from the outcome of each call alone: the pair
  of prices when both are fulfilled; the rejection when one is rejected; and, when both are
  rejected, the rejection of the call that settles first.
\<close>

definition firstSettled ::
  "bool \<Rightarrow> jserror + jsval \<Rightarrow> jserror + jsval \<Rightarrow> jserror + jsval \<times> jsval" where
  "firstSettled fromFirst rf rt =
     (case rf of
        Inl e \<Rightarrow> (case rt of Inl e' \<Rightarrow> if fromFirst then Inl e else Inl e' | Inr b \<Rightarrow> Inl e)
      | Inr a \<Rightarrow> (case rt of Inl e' \<Rightarrow> Inl e' | Inr b \<Rightarrow> Inr (a, b)))"

text \<open>
  The call for the source currency is made first. It settles before the call for the target
  currency when it settles at the call, without a request; or when both calls wait for the
  network and its answer arrives first.
\<close>

definition fromCallFirst :: "environment \<Rightarrow> string \<Rightarrow> string \<Rightarrow> cache \<Rightarrow> bool" where
  "fromCallFirst env fromCrypto toCrypto cache =
     (fst (fetchPriceStart (clockFrom env) fromCrypto cache) \<noteq> None \<or>
      (fst (fetchPriceStart (clockTo env) toCrypto cache) = None \<and> fromSettlesFirst env))"

section \<open>Sample pages and answers\<close>

definition idlePage :: "string \<Rightarrow> string \<Rightarrow> string \<Rightarrow> cache \<Rightarrow> converter" where
  "idlePage fromCrypto toCrypto amount entries =
     \<lparr>isConverting = False, priceCache = entries,
      fromCryptoValue = fromCrypto, toCryptoValue = toCrypto, amountInputValue = amount,
      convertBtnDisabled = False, convertTextHidden = False, convertLoadingHidden = True,
      resultText = [], resultHidden = True, errorText = [], errorHidden = True\<rparr>"

definition answers :: "fetchOutcome \<Rightarrow> fetchOutcome \<Rightarrow> bool \<Rightarrow> environment" where
  "answers a b first =
     \<lparr>clockFrom = 1000, clockTo = 1000, netFrom = a, netTo = b,
      storeFrom = 1200, storeTo = 1300, fromSettlesFirst = first\<rparr>"

definition flatBody :: "rat \<Rightarrow> jsval" where
  "flatBody p = JObj [(''usd_price'', JNum (Fin p))]"

definition nestedBody :: "rat \<Rightarrow> jsval" where
  "nestedBody p = JObj [(''data'', JObj [(''usd_price'', JNum (Fin p))])]"

definition bitcoinEntry :: "(string \<times> cacheEntry) list" where
  "bitcoinEntry = [(''bitcoin'', \<lparr>price = JNum (Fin 2), timestamp = 0\<rparr>)]"

text \<open>An entry as an answer \<^verbatim>\<open>{"usd_price": {"toString": 1}}\<close> at time 900 leaves it.\<close>

definition objectEntry :: "(string \<times> cacheEntry) list" where
  "objectEntry =
     [(''bitcoin'', \<lparr>price = JObj [(''toString'', JNum (Fin 1))], timestamp = 900\<rparr>)]"


section \<open>Properties of the price cache\<close>

text \<open>
  C1: \<open>getCachedPrice\<close> returns the stored price when there is an entry whose age
  \<open>now - timestamp\<close> is at most 60000 ms. It returns \<^verbatim>\<open>null\<close> when there is no entry, and
  also when the entry is older; in that case the cache it leaves has lost this entry and
  nothing else.
\<close>

theorem getCachedPrice_window:
  "(map_of cache coinId = None \<longrightarrow> getCachedPrice now coinId cache = (JNull, cache)) \<and>
   (\<forall>cached. map_of cache coinId = Some cached \<and> now - timestamp cached \<le> 60000 \<longrightarrow>
      getCachedPrice now coinId cache = (price cached, cache)) \<and>
   (\<forall>cached. map_of cache coinId = Some cached \<and> now - timestamp cached > 60000 \<longrightarrow>
      fst (getCachedPrice now coinId cache) = JNull \<and>
      map_of (snd (getCachedPrice now coinId cache)) = (map_of cache)(coinId := None))"
  by (auto simp: getCachedPrice_def cacheExpiration_def delete_conv')

theorem getCachedPrice_window_witness:
  "getCachedPrice 5 ''ethereum'' bitcoinEntry = (JNull, bitcoinEntry) \<and>
   getCachedPrice 60000 ''bitcoin'' bitcoinEntry = (JNum (Fin 2), bitcoinEntry) \<and>
   fst (getCachedPrice 60001 ''bitcoin'' bitcoinEntry) = JNull \<and>
   map_of (snd (getCachedPrice 60001 ''bitcoin'' bitcoinEntry)) ''bitcoin'' = None"
  using getCachedPrice_window [of bitcoinEntry "''ethereum''" 5]
    getCachedPrice_window [of bitcoinEntry "''bitcoin''" 60000]
    getCachedPrice_window [of bitcoinEntry "''bitcoin''" 60001]
  by (simp add: bitcoinEntry_def)

text \<open>
  C10: \<open>getCacheStatus\<close> leaves the cache as it found it. For an entry older than 60
  seconds it returns the empty status and the entry is still there afterwards, where
  \<open>getCachedPrice\<close> at the same moment removes it.
\<close>

theorem getCacheStatus_frame:
  "snd (getCacheStatus now coinId cache) = cache \<and>
   (\<forall>cached. map_of cache coinId = Some cached \<and> now - timestamp cached > 60 * 1000 \<longrightarrow>
      fst (getCacheStatus now coinId cache) = [] \<and>
      map_of (snd (getCacheStatus now coinId cache)) coinId = Some cached \<and>
      map_of (snd (getCachedPrice now coinId cache)) coinId = None)"
  by (auto simp: getCacheStatus_def getCachedPrice_def cacheExpiration_def remainingSeconds_def
      delete_conv' split: option.splits)

theorem getCacheStatus_frame_witness:
  "map_of bitcoinEntry ''bitcoin'' = Some \<lparr>price = JNum (Fin 2), timestamp = 0\<rparr> \<and>
   getCacheStatus 60001 ''bitcoin'' bitcoinEntry = ([], bitcoinEntry) \<and>
   map_of (snd (getCachedPrice 60001 ''bitcoin'' bitcoinEntry)) ''bitcoin'' = None"
proof -
  have h: "map_of bitcoinEntry ''bitcoin'' = Some \<lparr>price = JNum (Fin 2), timestamp = 0\<rparr>"
    by (simp add: bitcoinEntry_def)
  show ?thesis
    using h getCacheStatus_frame [of 60001 "''bitcoin''" bitcoinEntry]
    by (simp add: prod_eq_iff)
qed

lemma cacheStatusText_inj: "cacheStatusText a = cacheStatusText b \<longleftrightarrow> a = b"
  by (simp add: cacheStatusText_def)

text \<open>
  C6, as the code has it: the status shows the specification's remaining time to live,
  \<open>60 - floor((now - fetchedAt)/1000)\<close> clamped to non-negative, whenever that number is
  positive, and is empty when it is zero or absent. For a fixed \<open>fetchedAt\<close> the number of
  remaining seconds does not grow with \<open>now\<close>, and a number that is shown is at least 1.
\<close>

theorem getCacheStatus_remaining:
  "fst (getCacheStatus now coinId cache) =
     (case remainingTtl now coinId cache of
        None \<Rightarrow> []
      | Some r \<Rightarrow> if 0 < r then cacheStatusText r else []) \<and>
   (now \<le> later \<longrightarrow> remainingSeconds later cached \<le> remainingSeconds now cached) \<and>
   (\<forall>r. fst (getCacheStatus now coinId cache) = cacheStatusText r \<longrightarrow>
      0 < r \<and> remainingTtl now coinId cache = Some r)"
proof (intro conjI allI impI)
  show a: "fst (getCacheStatus now coinId cache) =
     (case remainingTtl now coinId cache of
        None \<Rightarrow> []
      | Some r \<Rightarrow> if 0 < r then cacheStatusText r else [])"
    by (auto simp: getCacheStatus_def remainingTtl_def remainingSeconds_def
        split: option.splits)
  show "remainingSeconds later cached \<le> remainingSeconds now cached" if "now \<le> later"
    using that by (simp add: remainingSeconds_def zdiv_mono1)
  fix r assume r: "fst (getCacheStatus now coinId cache) = cacheStatusText r"
  have ne: "cacheStatusText r \<noteq> []" by (simp add: cacheStatusText_def)
  from r a ne show "0 < r"
    by (auto simp: cacheStatusText_inj split: option.splits if_splits)
  from r a ne show "remainingTtl now coinId cache = Some r"
    by (auto simp: cacheStatusText_inj split: option.splits if_splits)
qed

theorem getCacheStatus_remaining_witness:
  "getCacheStatus 1500 ''bitcoin'' bitcoinEntry = (cacheStatusText 59, bitcoinEntry) \<and>
   remainingTtl 1500 ''bitcoin'' bitcoinEntry = Some 59 \<and>
   remainingSeconds 2000 \<lparr>price = JNum (Fin 2), timestamp = 0\<rparr>
     \<le> remainingSeconds 1500 \<lparr>price = JNum (Fin 2), timestamp = 0\<rparr>"
proof -
  have s: "getCacheStatus 1500 ''bitcoin'' bitcoinEntry = (cacheStatusText 59, bitcoinEntry)"
    by (simp add: getCacheStatus_def bitcoinEntry_def remainingSeconds_def)
  have le: "(1500::int) \<le> 2000" by simp
  show ?thesis
    using s le getCacheStatus_remaining [of 1500 "''bitcoin''" bitcoinEntry 2000
        "\<lparr>price = JNum (Fin 2), timestamp = 0\<rparr>"]
    by simp
qed

text \<open>
  C6 as stated fails: 60000 ms after the fetch the entry is still live (the cache read
  returns its price) and the clamped remaining time is 0, yet the status is empty instead
  of showing 0.
\<close>

theorem status_empty_at_sixty_seconds:
  "remainingTtl 60000 ''bitcoin'' bitcoinEntry = Some 0 \<and>
   fst (getCachedPrice 60000 ''bitcoin'' bitcoinEntry) = JNum (Fin 2) \<and>
   fst (getCacheStatus 60000 ''bitcoin'' bitcoinEntry) = [] \<and>
   cacheStatusText 0 \<noteq> []"
  by (simp add: remainingTtl_def getCachedPrice_def getCacheStatus_def bitcoinEntry_def
      remainingSeconds_def cacheExpiration_def cacheStatusText_def)

section \<open>Properties of the price extraction\<close>

text \<open>
  C9: \<open>extractUsdPrice\<close> returns the \<^verbatim>\<open>data\<close> field when it is a number such as 3, but not
  when it is the number 0: the test of the fourth shape stands inside \<^verbatim>\<open>if (data.data)\<close>,
  which 0 does not pass, so the result is \<^verbatim>\<open>null\<close> and the submit shows an error. The
  first shape has no such guard and returns a \<^verbatim>\<open>usd_price\<close> of 0.
\<close>

theorem extractUsdPrice_zero_data:
  "extractUsdPrice (JObj [(''data'', JNum (Fin 0))]) = Inr JNull \<and>
   extractUsdPrice (JObj [(''data'', JNum (Fin 3))]) = Inr (JNum (Fin 3)) \<and>
   extractUsdPrice (JObj [(''usd_price'', JNum (Fin 0))]) = Inr (JNum (Fin 0)) \<and>
   fst (handleSubmit ''bitcoin'' ''2'' (Response 200 (Some (JObj [(''data'', JNum (Fin 0))])))) =
     [Lit ''Error: '', Lit ''Unable to read usd_price from response'']"
  by code_simp

text \<open>
  C2: \<open>fetchPrice\<close> of the pair converter reads \<^verbatim>\<open>data.usd_price\<close> and nothing else. For a
  successful response whose body matches no shape (\<^verbatim>\<open>{}\<close>), and for one with the price
  nested under \<^verbatim>\<open>data\<close>, the call is fulfilled with \<^verbatim>\<open>undefined\<close> and stores \<^verbatim>\<open>undefined\<close>
  in the cache, from where the next call takes it as a cached price; \<open>extractUsdPrice\<close>
  of the calculator gives \<^verbatim>\<open>null\<close> for the first body and 5 for the second.
\<close>

theorem fetchPrice_unchecked_body:
  "fetchPrice 1000 1200 ''bitcoin'' (Response 200 (Some (JObj []))) [] =
     (Inr JUndefined, [(''bitcoin'', \<lparr>price = JUndefined, timestamp = 1200\<rparr>)],
      [ConsoleLog [Lit ''Fetching fresh price for '', Lit ''bitcoin'', Lit ''...''],
       FetchRequest ''https://price-api.crypto.com/price/v1/token-price/bitcoin'']) \<and>
   extractUsdPrice (JObj []) = Inr JNull \<and>
   fetchPrice 1000 1200 ''bitcoin'' (Response 200 (Some (nestedBody 5))) [] =
     (Inr JUndefined, [(''bitcoin'', \<lparr>price = JUndefined, timestamp = 1200\<rparr>)],
      [ConsoleLog [Lit ''Fetching fresh price for '', Lit ''bitcoin'', Lit ''...''],
       FetchRequest ''https://price-api.crypto.com/price/v1/token-price/bitcoin'']) \<and>
   extractUsdPrice (nestedBody 5) = Inr (JNum (Fin 5)) \<and>
   fst (fetchPriceStart 1300 ''bitcoin'' [(''bitcoin'', \<lparr>price = JUndefined, timestamp = 1200\<rparr>)]) =
     Some (Inr JUndefined)"
  by code_simp

section \<open>Properties of the conversion\<close>

lemma validateInputs_inputs:
  "validateInputs (setLoadingState b (clearMessages s)) = validateInputs s"
  by (simp add: validateInputs_def setLoadingState_def clearMessages_def)

lemma not_positive_iff: "(isNaN a \<or> js_le_zero a) = (\<not> positiveNumber a)"
  by (cases a) (auto simp: isNaN_def)

lemma parseFloat_10: "parseFloat ''10'' = Fin 10"
  by code_simp

lemma invalidAmountError_bitcoin:
  "invalidAmountError ''bitcoin'' = [Lit ''Please enter a valid '', Lit ''BTC'', Lit '' amount.'']"
  by code_simp

text \<open>
  C3, as the code has it: validation fails with the same-currency message when the two
  selections are equal (checked first), and otherwise with the invalid-amount message
  exactly when the parsed amount is not a number greater than zero; positive infinity is
  such a number and passes. A conversion whose validation fails shows that message and
  ends without a request, a log entry or a change to the cache.
\<close>

theorem validateInputs_cases:
  "validateInputs s =
     (if fromCryptoValue s = toCryptoValue s then Invalid sameCurrencyError
      else if positiveNumber (parseFloat (amountInputValue s))
      then Valid (parseFloat (amountInputValue s)) (fromCryptoValue s) (toCryptoValue s)
      else Invalid (invalidAmountError (fromCryptoValue s))) \<and>
   (\<forall>message. \<not> isConverting s \<and> validateInputs s = Invalid message \<longrightarrow>
      snd (convert env s) = [] \<and> errorText (fst (convert env s)) = message \<and>
      \<not> errorHidden (fst (convert env s)) \<and> resultHidden (fst (convert env s)) \<and>
      priceCache (fst (convert env s)) = priceCache s)"
  by (auto simp: validateInputs_def Let_def not_positive_iff convert_def validateInputs_inputs
      setLoadingState_def clearMessages_def showError_def)

theorem validateInputs_cases_witness:
  "validateInputs (idlePage ''bitcoin'' ''bitcoin'' ''10'' []) = Invalid sameCurrencyError \<and>
   validateInputs (idlePage ''bitcoin'' ''ethereum'' ''-3'' []) =
     Invalid [Lit ''Please enter a valid '', Lit ''BTC'', Lit '' amount.''] \<and>
   validateInputs (idlePage ''bitcoin'' ''ethereum'' ''abc'' []) =
     Invalid [Lit ''Please enter a valid '', Lit ''BTC'', Lit '' amount.''] \<and>
   validateInputs (idlePage ''bitcoin'' ''ethereum'' ''10'' []) =
     Valid (Fin 10) ''bitcoin'' ''ethereum'' \<and>
   snd (convert (answers NetworkError NetworkError True)
          (idlePage ''bitcoin'' ''ethereum'' ''abc'' [])) = [] \<and>
   errorText (fst (convert (answers NetworkError NetworkError True)
          (idlePage ''bitcoin'' ''ethereum'' ''abc'' []))) =
     [Lit ''Please enter a valid '', Lit ''BTC'', Lit '' amount.'']"
proof -
  have idle: "\<not> isConverting (idlePage ''bitcoin'' ''ethereum'' ''abc'' [])"
    by (simp add: idlePage_def)
  have b: "parseFloat ''-3'' = Fin (- 3)" by code_simp
  have c: "parseFloat ''abc'' = NaN" by code_simp
  have inv: "validateInputs (idlePage ''bitcoin'' ''ethereum'' ''abc'' []) =
     Invalid [Lit ''Please enter a valid '', Lit ''BTC'', Lit '' amount.'']"
    using validateInputs_cases [of "idlePage ''bitcoin'' ''ethereum'' ''abc'' []"]
    by (simp add: idlePage_def c invalidAmountError_bitcoin)
  show ?thesis
    using validateInputs_cases [of "idlePage ''bitcoin'' ''bitcoin'' ''10'' []"]
      validateInputs_cases [of "idlePage ''bitcoin'' ''ethereum'' ''-3'' []"]
      validateInputs_cases [of "idlePage ''bitcoin'' ''ethereum'' ''10'' []"]
      validateInputs_cases [of "idlePage ''bitcoin'' ''ethereum'' ''abc'' []"
        "answers NetworkError NetworkError True"] idle inv
    by (simp add: idlePage_def parseFloat_10 b invalidAmountError_bitcoin)
qed

text \<open>
  C3 as stated fails: with the text \<^verbatim>\<open>Infinity\<close> in the amount field and two different
  currencies, the amount is not a finite number greater than zero, and validation succeeds.
\<close>

theorem positive_infinity_passes:
  "fromCryptoValue (idlePage ''bitcoin'' ''ethereum'' ''Infinity'' []) \<noteq>
     toCryptoValue (idlePage ''bitcoin'' ''ethereum'' ''Infinity'' []) \<and>
   \<not> finitePositive (parseFloat (amountInputValue (idlePage ''bitcoin'' ''ethereum'' ''Infinity'' []))) \<and>
   validateInputs (idlePage ''bitcoin'' ''ethereum'' ''Infinity'' []) =
     Valid PInf ''bitcoin'' ''ethereum''"
  by code_simp

text \<open>
  C5: a call of \<open>convert\<close> while \<open>isConverting\<close> is set returns at once: the controller
  and the page are unchanged, and nothing is requested or logged.
\<close>

theorem convert_while_converting:
  "isConverting s \<Longrightarrow> convert env s = (s, [])"
  by (simp add: convert_def)

theorem convert_while_converting_witness:
  "isConverting ((idlePage ''bitcoin'' ''ethereum'' ''10'' [])\<lparr>isConverting := True\<rparr>) \<and>
   convert (answers (Response 200 (Some (flatBody 2))) (Response 200 (Some (flatBody 4))) True)
     ((idlePage ''bitcoin'' ''ethereum'' ''10'' [])\<lparr>isConverting := True\<rparr>) =
   ((idlePage ''bitcoin'' ''ethereum'' ''10'' [])\<lparr>isConverting := True\<rparr>, [])"
proof -
  have h: "isConverting ((idlePage ''bitcoin'' ''ethereum'' ''10'' [])\<lparr>isConverting := True\<rparr>)"
    by simp
  show ?thesis using h convert_while_converting [OF h] by simp
qed

text \<open>
  C8: a run of \<open>convert\<close> that starts (the controller is not converting) leaves the
  controller idle when it settles, whatever the validation and the two requests give:
  \<open>isConverting\<close> is false, the button is enabled, its label is shown and the spinner is
  hidden.
\<close>

theorem convert_returns_to_idle:
  "\<not> isConverting s \<Longrightarrow>
     \<not> isConverting (fst (convert env s)) \<and> \<not> convertBtnDisabled (fst (convert env s)) \<and>
     \<not> convertTextHidden (fst (convert env s)) \<and> convertLoadingHidden (fst (convert env s))"
  by (simp add: convert_def Let_def setLoadingState_def
      split: validation.splits prod.splits sum.splits)

theorem convert_returns_to_idle_witness:
  "\<not> isConverting (idlePage ''bitcoin'' ''ethereum'' ''10'' []) \<and>
   \<not> isConverting (fst (convert (answers (Response 500 None) NetworkError True)
        (idlePage ''bitcoin'' ''ethereum'' ''10'' []))) \<and>
   \<not> convertBtnDisabled (fst (convert (answers (Response 500 None) NetworkError True)
        (idlePage ''bitcoin'' ''ethereum'' ''10'' []))) \<and>
   \<not> isConverting (fst (convert (answers NetworkError NetworkError True)
        (idlePage ''bitcoin'' ''bitcoin'' ''10'' []))) \<and>
   \<not> convertBtnDisabled (fst (convert (answers NetworkError NetworkError True)
        (idlePage ''bitcoin'' ''bitcoin'' ''10'' []))) \<and>
   \<not> isConverting (fst (convert
        (answers (Response 200 (Some (flatBody 2))) (Response 200 (Some (flatBody 4))) False)
        (idlePage ''bitcoin'' ''ethereum'' ''10'' []))) \<and>
   \<not> convertBtnDisabled (fst (convert
        (answers (Response 200 (Some (flatBody 2))) (Response 200 (Some (flatBody 4))) False)
        (idlePage ''bitcoin'' ''ethereum'' ''10'' [])))"
proof -
  have h: "\<not> isConverting (idlePage ''bitcoin'' ''ethereum'' ''10'' [])"
    and h': "\<not> isConverting (idlePage ''bitcoin'' ''bitcoin'' ''10'' [])"
    by (simp_all add: idlePage_def)
  show ?thesis
    using h convert_returns_to_idle [OF h, of "answers (Response 500 None) NetworkError True"]
      convert_returns_to_idle [OF h', of "answers NetworkError NetworkError True"]
      convert_returns_to_idle [OF h,
        of "answers (Response 200 (Some (flatBody 2))) (Response 200 (Some (flatBody 4))) False"]
    by simp
qed

lemma priceCache_started:
  "priceCache (setLoadingState b (clearMessages s)) = priceCache s"
  by (simp add: setLoadingState_def clearMessages_def)

lemma validateInputs_Valid:
  "validateInputs s = Valid amount fromCrypto toCrypto \<Longrightarrow> fromCrypto \<noteq> toCrypto"
  by (auto simp: validateInputs_def Let_def split: if_splits)

lemma validateInputs_sample:
  "validateInputs (idlePage ''bitcoin'' ''ethereum'' ''10'' entries) =
     Valid (Fin 10) ''bitcoin'' ''ethereum''"
  by (simp add: validateInputs_def idlePage_def parseFloat_10 isNaN_def)

lemma convert_valid:
  assumes "\<not> isConverting s" and "validateInputs s = Valid amount fromCrypto toCrypto"
    and "fetchBoth env fromCrypto toCrypto (priceCache s) = (fetched, cache', fx)"
  shows "convert env s =
     (case (case fetched of
              Inl e \<Rightarrow> Inl e
            | Inr (fromPrice, toPrice) \<Rightarrow>
                computeResult amount fromCrypto toCrypto fromPrice toPrice) of
        Inl e \<Rightarrow>
          (setLoadingState False (showError fetchErrorMessage
             ((setLoadingState True (clearMessages s))\<lparr>priceCache := cache'\<rparr>)),
           fx @ [ConsoleError [Lit ''Conversion error:''] e])
      | Inr message \<Rightarrow>
          (setLoadingState False (showResult message
             ((setLoadingState True (clearMessages s))\<lparr>priceCache := cache'\<rparr>)), fx))"
  using assms by (simp add: convert_def Let_def validateInputs_inputs priceCache_started)

lemma convert_fetch_failed:
  assumes "\<not> isConverting s" and "validateInputs s = Valid amount fromCrypto toCrypto"
    and "fst (fetchBoth env fromCrypto toCrypto (priceCache s)) = Inl e"
  shows "failedWith e (convert env s)"
proof -
  obtain cache' fx where f: "fetchBoth env fromCrypto toCrypto (priceCache s) = (Inl e, cache', fx)"
    using assms(3) by (cases "fetchBoth env fromCrypto toCrypto (priceCache s)") auto
  show ?thesis
    by (simp add: convert_valid [OF assms(1,2) f] failedWith_def setLoadingState_def
        clearMessages_def showError_def)
qed

lemma convert_fetched:
  assumes "\<not> isConverting s" and "validateInputs s = Valid amount fromCrypto toCrypto"
    and "fst (fetchBoth env fromCrypto toCrypto (priceCache s)) = Inr (a, b)"
    and "computeResult amount fromCrypto toCrypto a b = Inr message"
  shows "resultText (fst (convert env s)) = message \<and> \<not> resultHidden (fst (convert env s)) \<and>
         errorText (fst (convert env s)) = [] \<and> errorHidden (fst (convert env s))"
proof -
  obtain cache' fx where f:
    "fetchBoth env fromCrypto toCrypto (priceCache s) = (Inr (a, b), cache', fx)"
    using assms(3) by (cases "fetchBoth env fromCrypto toCrypto (priceCache s)") auto
  show ?thesis
    by (simp add: convert_valid [OF assms(1,2) f] assms(4) setLoadingState_def
        clearMessages_def showResult_def)
qed

lemma convert_result_shown:
  assumes "\<not> isConverting s" and "validateInputs s = Valid amount fromCrypto toCrypto"
    and "\<not> resultHidden (fst (convert env s))"
  shows "\<exists>a b. fst (fetchBoth env fromCrypto toCrypto (priceCache s)) = Inr (a, b)"
proof -
  obtain fetched cache' fx where f:
    "fetchBoth env fromCrypto toCrypto (priceCache s) = (fetched, cache', fx)"
    by (cases "fetchBoth env fromCrypto toCrypto (priceCache s)") auto
  show ?thesis
    using assms(3)
    by (cases fetched)
      (auto simp: convert_valid [OF assms(1,2) f] f setLoadingState_def
        clearMessages_def showResult_def showError_def split: sum.splits)
qed

lemma fetchPriceSettle_triple:
  obtains c' fx where "fetchPriceSettle now coinId outcome cache = (readUsdPrice outcome, c', fx)"
  by (cases "readUsdPrice outcome") (auto simp: fetchPriceSettle_def)

lemma getCachedPrice_other:
  "k \<noteq> coinId \<Longrightarrow> map_of (snd (getCachedPrice now coinId cache)) k = map_of cache k"
  by (simp add: getCachedPrice_def delete_conv' split: option.splits)

lemma fst_getCachedPrice_cong:
  "map_of c coinId = map_of c' coinId \<Longrightarrow>
     fst (getCachedPrice now coinId c) = fst (getCachedPrice now coinId c')"
  by (simp add: getCachedPrice_def split: option.splits)

lemma fetchPriceStart_fst:
  "fst (fetchPriceStart now coinId cache) =
     (if fst (getCachedPrice now coinId cache) \<noteq> JNull
      then if throwsOnToString (fst (getCachedPrice now coinId cache))
           then Some (Inl (Runtime NoPrimitive))
           else Some (Inr (fst (getCachedPrice now coinId cache)))
      else None)"
  by (simp add: fetchPriceStart_def split: prod.splits)

lemma fetchPriceStart_cache:
  "fst (snd (fetchPriceStart now coinId cache)) = snd (getCachedPrice now coinId cache)"
  by (simp add: fetchPriceStart_def split: prod.splits)

lemma fetchPriceStart_other:
  assumes "k \<noteq> coinId"
  shows "fst (fetchPriceStart now' k (fst (snd (fetchPriceStart now coinId cache)))) =
         fst (fetchPriceStart now' k cache)"
proof -
  have "map_of (fst (snd (fetchPriceStart now coinId cache))) k = map_of cache k"
    by (simp add: fetchPriceStart_cache getCachedPrice_other [OF assms])
  then have "fst (getCachedPrice now' k (fst (snd (fetchPriceStart now coinId cache)))) =
             fst (getCachedPrice now' k cache)"
    by (rule fst_getCachedPrice_cong)
  then show ?thesis
    by (simp only: fetchPriceStart_fst)
qed

lemma fetchPrice_fst:
  "fst (fetchPrice now later coinId outcome cache) =
     (case fst (fetchPriceStart now coinId cache) of
        Some r \<Rightarrow> r
      | None \<Rightarrow> readUsdPrice outcome)"
proof -
  obtain started c fx where s: "fetchPriceStart now coinId cache = (started, c, fx)"
    by (cases "fetchPriceStart now coinId cache") auto
  obtain c' fx' where t: "fetchPriceSettle later coinId outcome c = (readUsdPrice outcome, c', fx')"
    by (rule fetchPriceSettle_triple)
  show ?thesis
    by (cases started) (simp_all add: fetchPrice_def s t)
qed

lemma fetchBoth_started:
  assumes "fetchPriceStart (clockFrom env) fromCrypto cache = (pf, c1, fx1)"
    and "fetchPriceStart (clockTo env) toCrypto c1 = (pt, c2, fx2)"
  shows "fst (fetchBoth env fromCrypto toCrypto cache) =
     firstSettled (pf \<noteq> None \<or> (pt = None \<and> fromSettlesFirst env))
       (case pf of Some r \<Rightarrow> r | None \<Rightarrow> readUsdPrice (netFrom env))
       (case pt of Some r \<Rightarrow> r | None \<Rightarrow> readUsdPrice (netTo env))"
proof -
  obtain cF fxF where F2:
    "fetchPriceSettle (storeFrom env) fromCrypto (netFrom env) c2 =
       (readUsdPrice (netFrom env), cF, fxF)"
    by (rule fetchPriceSettle_triple)
  obtain cT fxT where T2:
    "fetchPriceSettle (storeTo env) toCrypto (netTo env) c2 =
       (readUsdPrice (netTo env), cT, fxT)"
    by (rule fetchPriceSettle_triple)
  obtain cTF fxTF where TF:
    "fetchPriceSettle (storeTo env) toCrypto (netTo env) cF =
       (readUsdPrice (netTo env), cTF, fxTF)"
    by (rule fetchPriceSettle_triple)
  obtain cFT fxFT where FT:
    "fetchPriceSettle (storeFrom env) fromCrypto (netFrom env) cT =
       (readUsdPrice (netFrom env), cFT, fxFT)"
    by (rule fetchPriceSettle_triple)
  show ?thesis
  proof (cases pf)
    case None
    note pfN = None
    show ?thesis
    proof (cases pt)
      case None
      show ?thesis
        by (cases "readUsdPrice (netFrom env)"; cases "readUsdPrice (netTo env)")
          (simp_all add: fetchBoth_def assms pfN None F2 T2 TF FT firstSettled_def Let_def)
    next
      case (Some rt)
      show ?thesis
        by (cases rt; cases "readUsdPrice (netFrom env)")
          (simp_all add: fetchBoth_def assms pfN Some F2 firstSettled_def Let_def)
    qed
  next
    case (Some rf)
    note pfS = Some
    show ?thesis
    proof (cases pt)
      case None
      show ?thesis
        by (cases rf; cases "readUsdPrice (netTo env)")
          (simp_all add: fetchBoth_def assms pfS None T2 firstSettled_def Let_def)
    next
      case (Some rt)
      show ?thesis
        by (cases rf; cases rt)
          (simp_all add: fetchBoth_def assms pfS Some firstSettled_def Let_def)
    qed
  qed
qed

lemma fetchBoth_fst:
  assumes "fromCrypto \<noteq> toCrypto"
  shows "fst (fetchBoth env fromCrypto toCrypto cache) =
     firstSettled (fromCallFirst env fromCrypto toCrypto cache)
       (fst (fetchPrice (clockFrom env) (storeFrom env) fromCrypto (netFrom env) cache))
       (fst (fetchPrice (clockTo env) (storeTo env) toCrypto (netTo env) cache))"
proof -
  obtain pf c1 fx1 where sf: "fetchPriceStart (clockFrom env) fromCrypto cache = (pf, c1, fx1)"
    by (cases "fetchPriceStart (clockFrom env) fromCrypto cache") auto
  obtain pt c2 fx2 where st: "fetchPriceStart (clockTo env) toCrypto c1 = (pt, c2, fx2)"
    by (cases "fetchPriceStart (clockTo env) toCrypto c1") auto
  have "fst (fetchPriceStart (clockTo env) toCrypto
          (fst (snd (fetchPriceStart (clockFrom env) fromCrypto cache)))) =
        fst (fetchPriceStart (clockTo env) toCrypto cache)"
    using assms by (intro fetchPriceStart_other) simp
  then have pt: "fst (fetchPriceStart (clockTo env) toCrypto cache) = pt"
    by (simp add: sf st)
  have pf: "fst (fetchPriceStart (clockFrom env) fromCrypto cache) = pf"
    by (simp add: sf)
  show ?thesis
    by (simp only: fetchBoth_started [OF sf st] fetchPrice_fst pt pf fromCallFirst_def)
qed

lemma fetchPrice_sample_object:
  "fst (fetchPrice 1000 1200 ''bitcoin'' NetworkError objectEntry) = Inl (Runtime NoPrimitive)"
  by code_simp

lemma fetchPrice_sample_beside_object:
  "fst (fetchPrice 1000 1300 ''ethereum'' NetworkError objectEntry) = Inl (Runtime NetworkFailure)"
  by code_simp

lemma fetchPriceStart_sample_object:
  "fst (fetchPriceStart 1000 ''bitcoin'' objectEntry) = Some (Inl (Runtime NoPrimitive))"
  by code_simp

lemma fetchPriceStart_sample_empty:
  "fst (fetchPriceStart 1000 coinId []) = None"
  by (simp add: fetchPriceStart_def getCachedPrice_def)

lemma fetchPrice_sample_500:
  "fst (fetchPrice 1000 1200 ''bitcoin'' (Response 500 None) []) =
     Inl (Error [Lit ''HTTP error! status: '', Str (JNum (Fin 500))])"
  by code_simp

lemma fetchPrice_sample_network:
  "fst (fetchPrice 1000 1300 ''ethereum'' NetworkError []) = Inl (Runtime NetworkFailure)"
  by code_simp

lemma fetchPrice_sample_from:
  "fst (fetchPrice 1000 1200 ''bitcoin'' (Response 200 (Some (flatBody 2))) []) =
     Inr (JNum (Fin 2))"
  by code_simp

lemma fetchPrice_sample_to:
  "fst (fetchPrice 1000 1300 ''ethereum'' (Response 200 (Some (flatBody 4))) []) =
     Inr (JNum (Fin 4))"
  by code_simp

lemma js_mul_sample: "js_mul (Fin 10) (Fin 2) = Fin 20"
  by code_simp

lemma js_div_sample: "js_div (Fin 20) (Fin 4) = Fin 5"
  by code_simp

lemma resultMessage_sample:
  "resultMessage (Fin 10) ''bitcoin'' (Fin 5) ''ethereum'' (Fin 20) =
     [Fixed (Fin 10) 4, Lit '' '', Lit ''BTC'', Lit '' = '', Fixed (Fin 5) 8, Lit '' '',
      Lit ''ETH'', Lit '' (via USD: $'', Fixed (Fin 20) 6, Lit '')'']"
  by code_simp

lemma fetchBoth_sample:
  "fst (fetchBoth (answers (Response 200 (Some (flatBody 2))) (Response 200 (Some (flatBody 4))) True)
     ''bitcoin'' ''ethereum'' []) = Inr (JNum (Fin 2), JNum (Fin 4))"
  by code_simp

text \<open>
  C4: in a conversion that passed validation, when the call for the source currency is
  rejected and it settles first or the other call is fulfilled, or when the call for the
  target currency is rejected and it settles first or the other call is fulfilled, the
  conversion fails with that rejection: the generic message is shown, no result is, and the
  rejection is what is logged. A result is shown only if both calls are fulfilled, and it is
  shown when both are and the arithmetic on the two prices does not throw. Which call
  settles first is \<open>fromCallFirst\<close>.
\<close>

theorem convert_all_or_fail:
  assumes "\<not> isConverting s" and "validateInputs s = Valid amount fromCrypto toCrypto"
  shows "(\<forall>e. fst (fetchPrice (clockFrom env) (storeFrom env) fromCrypto (netFrom env)
                 (priceCache s)) = Inl e \<and>
              (fromCallFirst env fromCrypto toCrypto (priceCache s) \<or>
               (\<exists>b. fst (fetchPrice (clockTo env) (storeTo env) toCrypto (netTo env)
                      (priceCache s)) = Inr b)) \<longrightarrow>
            failedWith e (convert env s)) \<and>
         (\<forall>e. fst (fetchPrice (clockTo env) (storeTo env) toCrypto (netTo env)
                 (priceCache s)) = Inl e \<and>
              (\<not> fromCallFirst env fromCrypto toCrypto (priceCache s) \<or>
               (\<exists>a. fst (fetchPrice (clockFrom env) (storeFrom env) fromCrypto (netFrom env)
                      (priceCache s)) = Inr a)) \<longrightarrow>
            failedWith e (convert env s)) \<and>
         (\<not> resultHidden (fst (convert env s)) \<longrightarrow>
            (\<exists>a b. fst (fetchPrice (clockFrom env) (storeFrom env) fromCrypto (netFrom env)
                      (priceCache s)) = Inr a \<and>
                   fst (fetchPrice (clockTo env) (storeTo env) toCrypto (netTo env)
                      (priceCache s)) = Inr b)) \<and>
         (\<forall>a b message.
            fst (fetchPrice (clockFrom env) (storeFrom env) fromCrypto (netFrom env)
                 (priceCache s)) = Inr a \<and>
            fst (fetchPrice (clockTo env) (storeTo env) toCrypto (netTo env)
                 (priceCache s)) = Inr b \<and>
            computeResult amount fromCrypto toCrypto a b = Inr message \<longrightarrow>
            resultText (fst (convert env s)) = message \<and>
            \<not> resultHidden (fst (convert env s)) \<and> errorHidden (fst (convert env s)))"
proof -
  let ?rf = "fst (fetchPrice (clockFrom env) (storeFrom env) fromCrypto (netFrom env)
                 (priceCache s))"
  let ?rt = "fst (fetchPrice (clockTo env) (storeTo env) toCrypto (netTo env) (priceCache s))"
  let ?first = "fromCallFirst env fromCrypto toCrypto (priceCache s)"
  have both: "fst (fetchBoth env fromCrypto toCrypto (priceCache s)) =
      firstSettled ?first ?rf ?rt"
    by (rule fetchBoth_fst [OF validateInputs_Valid [OF assms(2)]])
  have 1: "failedWith e (convert env s)"
    if "?rf = Inl e \<and> (?first \<or> (\<exists>b. ?rt = Inr b))" for e
  proof -
    from that have "firstSettled ?first ?rf ?rt = Inl e"
      by (cases ?rt) (auto simp: firstSettled_def)
    with both show ?thesis
      by (intro convert_fetch_failed [OF assms]) simp
  qed
  have 2: "failedWith e (convert env s)"
    if "?rt = Inl e \<and> (\<not> ?first \<or> (\<exists>a. ?rf = Inr a))" for e
  proof -
    from that have "firstSettled ?first ?rf ?rt = Inl e"
      by (cases ?rf) (auto simp: firstSettled_def)
    with both show ?thesis
      by (intro convert_fetch_failed [OF assms]) simp
  qed
  have 3: "\<exists>a b. ?rf = Inr a \<and> ?rt = Inr b" if "\<not> resultHidden (fst (convert env s))"
  proof -
    from convert_result_shown [OF assms that] both
    obtain a b where "firstSettled ?first ?rf ?rt = Inr (a, b)"
      by auto
    then show ?thesis
      by (cases ?rf; cases ?rt) (auto simp: firstSettled_def split: if_splits)
  qed
  have 4: "resultText (fst (convert env s)) = message \<and>
      \<not> resultHidden (fst (convert env s)) \<and> errorHidden (fst (convert env s))"
    if "?rf = Inr a \<and> ?rt = Inr b \<and> computeResult amount fromCrypto toCrypto a b = Inr message"
    for a b message
  proof -
    from that have "firstSettled ?first ?rf ?rt = Inr (a, b)"
      by (simp add: firstSettled_def)
    with both have "fst (fetchBoth env fromCrypto toCrypto (priceCache s)) = Inr (a, b)"
      by simp
    from convert_fetched [OF assms this] that show ?thesis
      by simp
  qed
  from 1 2 3 4 show ?thesis
    by blast
qed

theorem convert_all_or_fail_witness:
  "failedWith (Error [Lit ''HTTP error! status: '', Str (JNum (Fin 500))])
     (convert (answers (Response 500 None) NetworkError True)
        (idlePage ''bitcoin'' ''ethereum'' ''10'' [])) \<and>
   failedWith (Runtime NetworkFailure)
     (convert (answers (Response 500 None) NetworkError False)
        (idlePage ''bitcoin'' ''ethereum'' ''10'' [])) \<and>
   failedWith (Runtime NetworkFailure)
     (convert (answers (Response 200 (Some (flatBody 2))) NetworkError True)
        (idlePage ''bitcoin'' ''ethereum'' ''10'' [])) \<and>
   failedWith (Runtime NoPrimitive)
     (convert (answers NetworkError NetworkError False)
        (idlePage ''bitcoin'' ''ethereum'' ''10'' objectEntry)) \<and>
   \<not> resultHidden (fst (convert
        (answers (Response 200 (Some (flatBody 2))) (Response 200 (Some (flatBody 4))) True)
        (idlePage ''bitcoin'' ''ethereum'' ''10'' [])))"
proof -
  have idle: "\<not> isConverting (idlePage ''bitcoin'' ''ethereum'' ''10'' entries)" for entries
    by (simp add: idlePage_def)
  have c: "priceCache (idlePage ''bitcoin'' ''ethereum'' ''10'' entries) = entries" for entries
    by (simp add: idlePage_def)
  have r: "computeResult (Fin 10) ''bitcoin'' ''ethereum'' (JNum (Fin 2)) (JNum (Fin 4)) =
      Inr (resultMessage (Fin 10) ''bitcoin'' (Fin 5) ''ethereum'' (Fin 20))"
    by (simp add: computeResult_def js_mul_sample js_div_sample)
  have first: "fromCallFirst (answers a b f) ''bitcoin'' ''ethereum'' [] = f" for a b f
    by (simp add: fromCallFirst_def fetchPriceStart_sample_empty answers_def)
  have firstObject: "fromCallFirst (answers NetworkError NetworkError False)
      ''bitcoin'' ''ethereum'' objectEntry"
    by (simp add: fromCallFirst_def fetchPriceStart_sample_object answers_def)
  have 1: "failedWith (Error [Lit ''HTTP error! status: '', Str (JNum (Fin 500))])
     (convert (answers (Response 500 None) NetworkError True)
        (idlePage ''bitcoin'' ''ethereum'' ''10'' []))"
    using convert_all_or_fail [OF idle [of "[]"] validateInputs_sample [of "[]"],
        of "answers (Response 500 None) NetworkError True"]
    by (simp add: c first) (simp add: answers_def fetchPrice_sample_500)
  have 2: "failedWith (Runtime NetworkFailure)
     (convert (answers (Response 500 None) NetworkError False)
        (idlePage ''bitcoin'' ''ethereum'' ''10'' []))"
    using convert_all_or_fail [OF idle [of "[]"] validateInputs_sample [of "[]"],
        of "answers (Response 500 None) NetworkError False"]
    by (simp add: c first) (simp add: answers_def fetchPrice_sample_network)
  have 3: "failedWith (Runtime NetworkFailure)
     (convert (answers (Response 200 (Some (flatBody 2))) NetworkError True)
        (idlePage ''bitcoin'' ''ethereum'' ''10'' []))"
    using convert_all_or_fail [OF idle [of "[]"] validateInputs_sample [of "[]"],
        of "answers (Response 200 (Some (flatBody 2))) NetworkError True"]
    by (simp add: c first)
      (simp add: answers_def fetchPrice_sample_network fetchPrice_sample_from)
  have 4: "failedWith (Runtime NoPrimitive)
     (convert (answers NetworkError NetworkError False)
        (idlePage ''bitcoin'' ''ethereum'' ''10'' objectEntry))"
    using convert_all_or_fail [OF idle [of "objectEntry"] validateInputs_sample [of "objectEntry"],
        of "answers NetworkError NetworkError False"] firstObject
    by (simp add: c) (simp add: answers_def fetchPrice_sample_object)
  have 5: "\<not> resultHidden (fst (convert
        (answers (Response 200 (Some (flatBody 2))) (Response 200 (Some (flatBody 4))) True)
        (idlePage ''bitcoin'' ''ethereum'' ''10'' [])))"
    using convert_all_or_fail [OF idle [of "[]"] validateInputs_sample [of "[]"],
        of "answers (Response 200 (Some (flatBody 2))) (Response 200 (Some (flatBody 4))) True"]
    by (simp add: c first)
      (simp add: answers_def r fetchPrice_sample_from fetchPrice_sample_to)
  from 1 2 3 4 5 show ?thesis
    by simp
qed

text \<open>
  C7: in a conversion that passed validation and whose two calls are fulfilled with values
  that the operators read as the numbers \<open>fromPrice\<close> and \<open>toPrice\<close> (a Number is read as
  itself), the message shown is built from \<open>usdAmount = amount * fromPrice\<close> and
  \<open>convertedAmount = usdAmount / toPrice\<close>, in double arithmetic. For the amount 10 and
  the prices 2 and 4 these are 20 and 5.
\<close>

theorem convert_amounts:
  assumes "\<not> isConverting s"
    and "validateInputs s = Valid amount fromCrypto toCrypto"
    and "fst (fetchBoth env fromCrypto toCrypto (priceCache s)) = Inr (a, b)"
    and "toNumber a = Inr fromPrice" and "toNumber b = Inr toPrice"
  shows "resultText (fst (convert env s)) =
           resultMessage amount fromCrypto (js_div (js_mul amount fromPrice) toPrice) toCrypto
             (js_mul amount fromPrice) \<and>
         \<not> resultHidden (fst (convert env s)) \<and>
         toNumber (JNum fromPrice) = Inr fromPrice \<and>
         js_mul (Fin 10) (Fin 2) = Fin 20 \<and> js_div (Fin 20) (Fin 4) = Fin 5"
proof -
  have c: "computeResult amount fromCrypto toCrypto a b =
      Inr (resultMessage amount fromCrypto (js_div (js_mul amount fromPrice) toPrice) toCrypto
             (js_mul amount fromPrice))"
    by (simp add: computeResult_def Let_def assms(4,5))
  from convert_fetched [OF assms(1,2,3) c] js_mul_sample js_div_sample show ?thesis by simp
qed

theorem convert_amounts_witness:
  "validateInputs (idlePage ''bitcoin'' ''ethereum'' ''10'' []) =
     Valid (Fin 10) ''bitcoin'' ''ethereum'' \<and>
   resultText (fst (convert
       (answers (Response 200 (Some (flatBody 2))) (Response 200 (Some (flatBody 4))) True)
       (idlePage ''bitcoin'' ''ethereum'' ''10'' []))) =
     [Fixed (Fin 10) 4, Lit '' '', Lit ''BTC'', Lit '' = '', Fixed (Fin 5) 8, Lit '' '',
      Lit ''ETH'', Lit '' (via USD: $'', Fixed (Fin 20) 6, Lit '')'']"
proof -
  have idle: "\<not> isConverting (idlePage ''bitcoin'' ''ethereum'' ''10'' [])"
    by (simp add: idlePage_def)
  have f: "fst (fetchBoth
       (answers (Response 200 (Some (flatBody 2))) (Response 200 (Some (flatBody 4))) True)
       ''bitcoin'' ''ethereum'' (priceCache (idlePage ''bitcoin'' ''ethereum'' ''10'' []))) =
     Inr (JNum (Fin 2), JNum (Fin 4))"
    by (simp add: idlePage_def fetchBoth_sample)
  have n2: "toNumber (JNum (Fin 2)) = Inr (Fin 2)" and n4: "toNumber (JNum (Fin 4)) = Inr (Fin 4)"
    by simp_all
  from convert_amounts [OF idle validateInputs_sample f n2 n4]
  show ?thesis
    by (simp add: validateInputs_sample resultMessage_sample js_mul_sample js_div_sample)
qed

end
